theory Spec2Isabelle
  imports Main
begin

section \<open>ChunksToHermesBytecodePlugin: data model\<close>

text \<open>
  The plugin of \<^verbatim>\<open>ChunksToHermesBytecodePlugin.ts\<close> runs after webpack has emitted its
  assets. For every asset that matches the configured rules it computes where the bundle
  and its source map are on disk, moves the source map aside, has the Hermes compiler
  replace the bundle by bytecode and composes the two source maps.

  Paths and file contents are strings. An optional configuration value
  (\<^verbatim>\<open>bundleFilename?: string\<close>) is a \<open>string option\<close>, \<open>None\<close> being \<^verbatim>\<open>undefined\<close>.
\<close>

type_synonym path = string

text \<open>A JavaScript \<^verbatim>\<open>Error\<close> with its message: the only kind of exception the plugin throws.\<close>

datatype error = Error string

text \<open>The levels of webpack's infrastructure logger that the plugin writes to.\<close>

datatype level = LDebug | LInfo | LError

text \<open>
  The argument objects of the two helpers of \<^verbatim>\<open>./utils\<close>, and the object the transformer
  resolves to (of which the plugin reads \<^verbatim>\<open>sourceMap\<close>).
\<close>

record transformArgs =
  t_hermesCLIPath :: path
  t_useSourceMaps :: bool
  t_filePath :: path

record hermesAsset =
  sourceMap :: path

record composeArgs =
  c_reactNativePath :: path
  c_packagerMapPath :: path
  c_compilerMapPath :: path
  c_outputFile :: path

text \<open>
  Everything the plugin does to its surroundings is recorded, in order, as an event:
  a line written to the logger, a call of \<^verbatim>\<open>fs.access\<close> or \<^verbatim>\<open>fs.rename\<close>, a call of one
  of the two helpers with the arguments it was given.
\<close>

datatype event =
    Log level string
  | FsAccess path
  | FsRename path path
  | Transform transformArgs
  | Compose composeArgs

text \<open>
  The disk is a flat map from paths to contents, a path being present exactly when a file
  is there. The world the plugin acts on is the disk, the events so far, and the order
  in which the operations that the pipelines of a run are waiting for will complete:
  each entry of \<open>completions\<close> is the position of a pipeline among the matching assets.
\<close>

type_synonym disk = "path \<rightharpoonup> string"

record world =
  files :: disk
  trace :: "event list"
  completions :: "nat list"

text \<open>
  \<^verbatim>\<open>ChunksToHermesBytecodePluginConfig\<close>. The three rule options \<^verbatim>\<open>test\<close>, \<^verbatim>\<open>include\<close> and
  \<^verbatim>\<open>exclude\<close> are only ever handed to webpack's \<^verbatim>\<open>ModuleFilenameHelpers.matchObject\<close>;
  the field \<open>matchObject\<close> is that function applied to the configuration.
\<close>

record config =
  enabled :: bool
  platform :: string
  bundleFilename :: "path option"
  sourceMapFilename :: "path option"
  assetsPath :: "path option"
  reactNativePath :: "path option"
  hermesCLIPath :: "path option"
  matchObject :: "string \<Rightarrow> bool"

text \<open>
  What the plugin imports and does not define: three functions of Node's \<^verbatim>\<open>path\<close> module
  and the three helpers of \<^verbatim>\<open>./utils\<close>. They are parameters of the model. A helper that
  touches the disk takes the disk and returns the disk it leaves with either its result
  or the exception it throws; \<^verbatim>\<open>getHermesCLIPath\<close> is synchronous and may throw.
  \<open>renameError\<close> is the rejection of \<^verbatim>\<open>fs.rename\<close> for a source that is there, for a
  reason the flat disk does not show: a target directory that does not exist, a missing
  permission, another device.
\<close>

record externals =
  join :: "path \<Rightarrow> path \<Rightarrow> path"
  dirname :: "path \<Rightarrow> path"
  basename :: "path \<Rightarrow> path"
  getHermesCLIPath :: "path \<Rightarrow> error + path"
  transformBundleToHermesBytecode :: "transformArgs \<Rightarrow> disk \<Rightarrow> disk \<times> (error + hermesAsset)"
  composeSourceMaps :: "composeArgs \<Rightarrow> disk \<Rightarrow> disk \<times> error option"
  renameError :: "path \<Rightarrow> path \<Rightarrow> disk \<Rightarrow> error option"

text \<open>A webpack asset (only its name is read) and the compilation the hook receives.\<close>

record asset =
  name :: string

record compilation =
  getAssets :: "asset list"
  getPath :: "string \<Rightarrow> path"

text \<open>
  The constants \<^verbatim>\<open>apply\<close> computes once and the per-asset callback closes over.
\<close>

record closure =
  cl_platform :: string
  cl_bundleFilename :: path
  cl_reactNativePath :: path
  cl_hermesCLIPath :: path
  bundleOutputDir :: path
  assetsOutputDir :: path
  sourcemapOutputDir :: path

text \<open>
  A compiler is the list of callbacks tapped into its \<^verbatim>\<open>afterEmit\<close> hook, each under the
  name of its plugin. A callback, like every asynchronous step below, maps a world to
  the world it leaves and the exception it rejected with, if any.
\<close>

type_synonym task = "world \<Rightarrow> world \<times> error option"

record compiler =
  afterEmit :: "(string \<times> (compilation \<Rightarrow> task)) list"

section \<open>The primitives\<close>

text \<open>
  JavaScript truthiness of an optional string: \<^verbatim>\<open>undefined\<close> and the empty string are
  falsy. \<open>truthy\<close> returns the string when it is truthy.
\<close>

definition truthy :: "string option \<Rightarrow> string option" where
  "truthy v = (case v of None \<Rightarrow> None | Some s \<Rightarrow> if s = [] then None else Some s)"

definition logger :: "level \<Rightarrow> string \<Rightarrow> world \<Rightarrow> world" where
  "logger l msg w = w\<lparr>trace := trace w @ [Log l msg]\<rparr>"

text \<open>
  \<^verbatim>\<open>fileExists\<close>: \<^verbatim>\<open>fs.access\<close> succeeds exactly when the path is present; any failure is
  caught and turned into \<^verbatim>\<open>false\<close>.
\<close>

definition fileExists :: "path \<Rightarrow> world \<Rightarrow> bool \<times> world" where
  "fileExists p w = (files w p \<noteq> None, w\<lparr>trace := trace w @ [FsAccess p]\<rparr>)"

text \<open>
  \<^verbatim>\<open>fs.rename\<close>: rejects when the source is absent, and when the environment refuses the
  move although the source is there; in both cases the disk stays as it is. Otherwise
  the content moves to the target, replacing what was there.
\<close>

definition fs_rename :: "externals \<Rightarrow> path \<Rightarrow> path \<Rightarrow> task" where
  "fs_rename ex src dst w =
     (let w' = w\<lparr>trace := trace w @ [FsRename src dst]\<rparr>
      in case files w src of
           None \<Rightarrow> (w', Some (Error ''ENOENT''))
         | Some c \<Rightarrow>
             (case renameError ex src dst (files w) of
                Some e \<Rightarrow> (w', Some e)
              | None \<Rightarrow> (w'\<lparr>files := ((files w)(src := None))(dst \<mapsto> c)\<rparr>, None)))"

definition callTransform :: "externals \<Rightarrow> transformArgs \<Rightarrow> world \<Rightarrow> world \<times> (error + hermesAsset)" where
  "callTransform ex args w =
     (let (d, r) = transformBundleToHermesBytecode ex args (files w)
      in (w\<lparr>files := d, trace := trace w @ [Transform args]\<rparr>, r))"

definition callCompose :: "externals \<Rightarrow> composeArgs \<Rightarrow> task" where
  "callCompose ex args w =
     (let (d, r) = composeSourceMaps ex args (files w)
      in (w\<lparr>files := d, trace := trace w @ [Compose args]\<rparr>, r))"

section \<open>Path resolution\<close>

text \<open>The constants of the per-asset callback, lines 159 to 191.\<close>

definition isMainBundle :: "asset \<Rightarrow> bool" where
  "isMainBundle a = (name a = ''index.bundle'')"

definition assetPath :: "compilation \<Rightarrow> asset \<Rightarrow> path" where
  "assetPath cmp a = getPath cmp (name a)"

definition bundleOutputPath :: "externals \<Rightarrow> closure \<Rightarrow> compilation \<Rightarrow> asset \<Rightarrow> path" where
  "bundleOutputPath ex cl cmp a =
     (if isMainBundle a then cl_bundleFilename cl
      else join ex (if cl_platform cl = ''ios'' then assetsOutputDir cl else bundleOutputDir cl)
                   (assetPath cmp a))"

definition sourcemapOutputPath :: "externals \<Rightarrow> closure \<Rightarrow> compilation \<Rightarrow> asset \<Rightarrow> path" where
  "sourcemapOutputPath ex cl cmp a =
     (if \<not> isMainBundle a \<and> cl_platform cl = ''ios''
      then bundleOutputPath ex cl cmp a @ ''.map''
      else join ex (sourcemapOutputDir cl)
                   (basename ex (bundleOutputPath ex cl cmp a) @ ''.map''))"

definition packagerMapPath :: "externals \<Rightarrow> closure \<Rightarrow> compilation \<Rightarrow> asset \<Rightarrow> path" where
  "packagerMapPath ex cl cmp a =
     join ex (sourcemapOutputDir cl)
             (basename ex (bundleOutputPath ex cl cmp a) @ ''.packager.map'')"

text \<open>
  The rule of the specification for the role of an asset, to be compared with
  \<open>isMainBundle\<close>: the asset is the main bundle if and only if its name equals the
  main-entry bundle name \<open>mainBundleName\<close> that the build context configures.
\<close>

definition spec_isMainBundle :: "string \<Rightarrow> asset \<Rightarrow> bool" where
  "spec_isMainBundle mainBundleName a = (name a = mainBundleName)"

section \<open>The pipeline of one asset\<close>

text \<open>
  The body of the asynchronous callback mapped over the matching assets (lines 156 to
  217), one step after the other as its \<^verbatim>\<open>await\<close>s order them, with nothing else
  happening in between. An exception ends the pipeline where it is thrown, leaving the
  world as it is at that moment.
\<close>

definition msgNoSourceMaps :: string where
  "msgNoSourceMaps =
     ''No source maps found, did you forget to specify '' @ [CHR 0x27]
     @ ''--sourcemap-output'' @ [CHR 0x27] @ ''?''"

definition processAsset :: "externals \<Rightarrow> closure \<Rightarrow> compilation \<Rightarrow> asset \<Rightarrow> task" where
  "processAsset ex cl cmp a w0 =
     (let w1 = logger LDebug (''Starting hermes compilation for asset: '' @ name a) w0;
          bop = bundleOutputPath ex cl cmp a;
          (bundleExists, w2) = fileExists bop w1
      in if \<not> bundleExists then (logger LError (''Bundle does not exist: '' @ bop) w2, None)
         else
           let smp = sourcemapOutputPath ex cl cmp a;
               pmp = packagerMapPath ex cl cmp a;
               (useSourceMaps, w3) = fileExists smp w2;
               (w4, renamed) =
                 (if useSourceMaps then fs_rename ex smp pmp w3
                  else (logger LInfo msgNoSourceMaps w3, None))
           in case renamed of
                Some e \<Rightarrow> (w4, Some e)
              | None \<Rightarrow>
                  (case callTransform ex
                          \<lparr>t_hermesCLIPath = cl_hermesCLIPath cl,
                           t_useSourceMaps = useSourceMaps,
                           t_filePath = bop\<rparr> w4 of
                     (w5, Inl e) \<Rightarrow> (w5, Some e)
                   | (w5, Inr hermes) \<Rightarrow>
                       let w6 = logger LInfo (''Asset transformed: '' @ assetPath cmp a) w5
                       in if useSourceMaps
                          then callCompose ex
                                 \<lparr>c_reactNativePath = cl_reactNativePath cl,
                                  c_packagerMapPath = pmp,
                                  c_compilerMapPath = sourceMap hermes,
                                  c_outputFile = smp\<rparr> w6
                          else (w6, None)))"

section \<open>The pipeline, one await at a time\<close>

text \<open>
  The same body cut at its \<^verbatim>\<open>await\<close>s. A pipeline that is not settled is waiting for one
  operation, which has been called and has not taken effect yet. Resuming it lets that
  operation take effect on the disk as it is then and runs the code that follows up to
  the next \<^verbatim>\<open>await\<close>, or to the end, where the pipeline settles with the exception it
  threw, if any. Between two resumptions of a pipeline other pipelines may run.
\<close>

datatype pipeline =
    AwaitBundleExists asset
  | AwaitSourcemapExists asset
  | AwaitRename asset
  | AwaitTransform asset bool
  | AwaitCompose asset hermesAsset
  | Settled "error option"

fun resume :: "externals \<Rightarrow> closure \<Rightarrow> compilation \<Rightarrow> pipeline \<Rightarrow> world \<Rightarrow> pipeline \<times> world" where
  "resume ex cl cmp (AwaitBundleExists a) w =
     (let bop = bundleOutputPath ex cl cmp a;
          (bundleExists, w1) = fileExists bop w
      in if \<not> bundleExists
         then (Settled None, logger LError (''Bundle does not exist: '' @ bop) w1)
         else (AwaitSourcemapExists a, w1))"
| "resume ex cl cmp (AwaitSourcemapExists a) w =
     (let (useSourceMaps, w1) = fileExists (sourcemapOutputPath ex cl cmp a) w
      in if useSourceMaps then (AwaitRename a, w1)
         else (AwaitTransform a False, logger LInfo msgNoSourceMaps w1))"
| "resume ex cl cmp (AwaitRename a) w =
     (case fs_rename ex (sourcemapOutputPath ex cl cmp a) (packagerMapPath ex cl cmp a) w of
        (w1, Some e) \<Rightarrow> (Settled (Some e), w1)
      | (w1, None) \<Rightarrow> (AwaitTransform a True, w1))"
| "resume ex cl cmp (AwaitTransform a useSourceMaps) w =
     (case callTransform ex
             \<lparr>t_hermesCLIPath = cl_hermesCLIPath cl,
              t_useSourceMaps = useSourceMaps,
              t_filePath = bundleOutputPath ex cl cmp a\<rparr> w of
        (w1, Inl e) \<Rightarrow> (Settled (Some e), w1)
      | (w1, Inr hermes) \<Rightarrow>
          let w2 = logger LInfo (''Asset transformed: '' @ assetPath cmp a) w1
          in if useSourceMaps then (AwaitCompose a hermes, w2) else (Settled None, w2))"
| "resume ex cl cmp (AwaitCompose a hermes) w =
     (case callCompose ex
             \<lparr>c_reactNativePath = cl_reactNativePath cl,
              c_packagerMapPath = packagerMapPath ex cl cmp a,
              c_compilerMapPath = sourceMap hermes,
              c_outputFile = sourcemapOutputPath ex cl cmp a\<rparr> w of
        (w1, r) \<Rightarrow> (Settled r, w1))"
| "resume ex cl cmp (Settled r) w = (Settled r, w)"

text \<open>The number of operations a pipeline may still have to wait for.\<close>

fun remaining :: "pipeline \<Rightarrow> nat" where
  "remaining (AwaitBundleExists a) = 5"
| "remaining (AwaitSourcemapExists a) = 4"
| "remaining (AwaitRename a) = 3"
| "remaining (AwaitTransform a u) = 2"
| "remaining (AwaitCompose a h) = 1"
| "remaining (Settled r) = 0"

fun rejection :: "pipeline \<Rightarrow> error option" where
  "rejection (Settled r) = r"
| "rejection p = None"

section \<open>The hook and the plugin\<close>

text \<open>
  \<^verbatim>\<open>Promise.all\<close> over the pipelines (lines 141 to 219). A run is the list of the
  pipelines, the rejection of the promise, if it has rejected, and the world.
  One step of a run is the completion of the operation that pipeline \<open>i\<close> waits for: the
  pipeline is resumed, and when it settles with an exception while the promise has not
  rejected, the promise rejects with it. No pipeline is cancelled by a rejection. A
  position beyond the list, or of a settled pipeline, changes nothing.
\<close>

type_synonym running = "pipeline list \<times> error option \<times> world"

definition promiseStep :: "externals \<Rightarrow> closure \<Rightarrow> compilation \<Rightarrow> nat \<Rightarrow> running \<Rightarrow> running" where
  "promiseStep ex cl cmp i s =
     (case s of (ps, rej, w) \<Rightarrow>
        if i < length ps
        then (let (p, w1) = resume ex cl cmp (ps ! i) w
              in (ps[i := p], (case rej of Some e \<Rightarrow> Some e | None \<Rightarrow> rejection p), w1))
        else s)"

fun promiseSteps :: "externals \<Rightarrow> closure \<Rightarrow> compilation \<Rightarrow> nat list \<Rightarrow> running \<Rightarrow> running" where
  "promiseSteps ex cl cmp [] s = s"
| "promiseSteps ex cl cmp (i # js) s = promiseSteps ex cl cmp js (promiseStep ex cl cmp i s)"

text \<open>
  When the given order of completions is used up, the operations still awaited complete
  pipeline by pipeline; five completions settle any pipeline.
\<close>

definition settleAll :: "externals \<Rightarrow> closure \<Rightarrow> compilation \<Rightarrow> running \<Rightarrow> running" where
  "settleAll ex cl cmp s =
     promiseSteps ex cl cmp (concat (map (\<lambda>i. [i, i, i, i, i]) [0..<length (fst s)])) s"

text \<open>
  Mapping the callback over the assets runs every pipeline up to its first \<^verbatim>\<open>await\<close>,
  in the order of the assets: each logs its start and calls \<^verbatim>\<open>fileExists\<close> on its bundle
  path. From then on the pipelines proceed in the order in which their operations
  complete, which the world gives. The result is the world when every pipeline has
  settled, and the first rejection in that order.
\<close>

definition promiseAll :: "externals \<Rightarrow> closure \<Rightarrow> compilation \<Rightarrow> asset list \<Rightarrow> task" where
  "promiseAll ex cl cmp as w =
     (let w0 = foldl (\<lambda>v a. logger LDebug (''Starting hermes compilation for asset: '' @ name a) v)
                     w as;
          (ps, rej, w1) =
            settleAll ex cl cmp
              (promiseSteps ex cl cmp (completions w) (map AwaitBundleExists as, None, w0))
      in (w1, rej))"

definition shouldUseHermesByteCode :: "config \<Rightarrow> string \<Rightarrow> bool" where
  "shouldUseHermesByteCode cfg filename = matchObject cfg filename"

definition afterEmitCallback :: "externals \<Rightarrow> config \<Rightarrow> closure \<Rightarrow> compilation \<Rightarrow> task" where
  "afterEmitCallback ex cfg cl cmp =
     promiseAll ex cl cmp
       (filter (\<lambda>a. shouldUseHermesByteCode cfg (name a)) (getAssets cmp))"

text \<open>Lines 129 to 138: the three directories, with their defaults.\<close>

definition makeClosure :: "externals \<Rightarrow> config \<Rightarrow> path \<Rightarrow> path \<Rightarrow> path \<Rightarrow> closure" where
  "makeClosure ex cfg bf rnp cli =
     (let bod = dirname ex bf
      in \<lparr>cl_platform = platform cfg,
          cl_bundleFilename = bf,
          cl_reactNativePath = rnp,
          cl_hermesCLIPath = cli,
          bundleOutputDir = bod,
          assetsOutputDir = (case truthy (assetsPath cfg) of Some p \<Rightarrow> p | None \<Rightarrow> bod),
          sourcemapOutputDir =
            (case truthy (sourceMapFilename cfg) of Some p \<Rightarrow> dirname ex p | None \<Rightarrow> bod)\<rparr>)"

definition pluginName :: string where
  "pluginName = ''ChunksToHermesBytecodePlugin''"

definition msgUnsupported :: string where
  "msgUnsupported =
     ''Hermes compilation is only supported for the '' @ [CHR 0x27] @ ''webpack-bundle''
     @ [CHR 0x27] @ '' command. You can disable this plugin via the '' @ [CHR 0x27]
     @ ''enabled'' @ [CHR 0x27] @ '' option.''"

definition msgForgot :: string where
  "msgForgot =
     ''Did you forget to provide an explicit '' @ [CHR 0x27] @ ''--bundle-output <path>''
     @ [CHR 0x27] @ '' option to '' @ [CHR 0x27] @ ''webpack-bundle'' @ [CHR 0x27] @ ''?''"

text \<open>
  \<^verbatim>\<open>apply\<close> (lines 94 to 223). It returns the compiler with the hooks it has tapped, the
  world with what it has logged, and the exception it threw, if any. The default of
  \<^verbatim>\<open>reactNativePath\<close> is a destructuring default, used for \<^verbatim>\<open>undefined\<close> only; the
  other optional values are tested for truthiness.
\<close>

definition apply_plugin :: "externals \<Rightarrow> config \<Rightarrow> compiler \<Rightarrow> world \<Rightarrow> compiler \<times> world \<times> error option" where
  "apply_plugin ex cfg c w =
     (if \<not> enabled cfg then (c, logger LInfo ''Skipping hermes compilation'' w, None)
      else
        let rnp = (case reactNativePath cfg of
                     None \<Rightarrow> ''./node_modules/react-native'' | Some p \<Rightarrow> p)
        in case truthy (bundleFilename cfg) of
             None \<Rightarrow>
               (c, logger LInfo msgForgot (logger LError msgUnsupported w),
                Some (Error ''Hermes compilation is only supported for bundle builds with --bundle-output''))
           | Some bf \<Rightarrow>
               (case (case truthy (hermesCLIPath cfg) of
                        Some p \<Rightarrow> Inr p | None \<Rightarrow> getHermesCLIPath ex rnp) of
                  Inl e \<Rightarrow> (c, w, Some e)
                | Inr cli \<Rightarrow>
                    (c\<lparr>afterEmit := afterEmit c
                         @ [(pluginName, afterEmitCallback ex cfg (makeClosure ex cfg bf rnp cli))]\<rparr>,
                     w, None)))"

text \<open>
  Webpack calling the \<^verbatim>\<open>afterEmit\<close> hook: the tapped callbacks run in the order they
  were tapped, and the first rejection ends the series.
\<close>

fun callAfterEmit :: "(string \<times> (compilation \<Rightarrow> task)) list \<Rightarrow> compilation \<Rightarrow> task" where
  "callAfterEmit [] cmp w = (w, None)"
| "callAfterEmit ((n, f) # taps) cmp w =
     (case f cmp w of
        (w1, Some e) \<Rightarrow> (w1, Some e)
      | (w1, None) \<Rightarrow> callAfterEmit taps cmp w1)"

section \<open>The map composer\<close>

text \<open>
  Modelled from the spec: \<^verbatim>\<open>composeSourceMaps\<close> is defined in \<^verbatim>\<open>./utils\<close>, which is not among
  the sources; the plugin only calls it. By the specification the composer takes
  the packager map and the compiler map, fails when one of them is not a well-formed
  position map, writes the composed map to the output path, overwriting what is there,
  and consumes the packager map, which must not remain on disk after a successful
  composition. The composition of the two maps themselves is the parameter \<open>cm\<close>, \<open>None\<close>
  when an input is not well formed. The plugin reads no message of the errors; they
  carry the names the specification gives them.
\<close>

definition spec_composeSourceMaps ::
    "(string \<Rightarrow> string \<Rightarrow> string option) \<Rightarrow> composeArgs \<Rightarrow> disk \<Rightarrow> disk \<times> error option" where
  "spec_composeSourceMaps cm args d =
     (case (d (c_packagerMapPath args), d (c_compilerMapPath args)) of
        (Some m1, Some m2) \<Rightarrow>
          (case cm m1 m2 of
             None \<Rightarrow> (d, Some (Error ''MapFormatError''))
           | Some m \<Rightarrow> ((d(c_outputFile args \<mapsto> m))(c_packagerMapPath args := None), None))
      | _ \<Rightarrow> (d, Some (Error ''MapFormatError'')))"

section \<open>A sample build\<close>

text \<open>
  A concrete environment on which the theorems below are run: path functions that are
  right for absolute paths without \<^verbatim>\<open>.\<close> and \<^verbatim>\<open>..\<close> segments, a rename that the
  environment never refuses, a compiler that succeeds on every bundle that is there, and
  the composer above with concatenation for the composition of maps.
\<close>

definition sample_transform :: "transformArgs \<Rightarrow> disk \<Rightarrow> disk \<times> (error + hermesAsset)" where
  "sample_transform args d =
     (case d (t_filePath args) of
        None \<Rightarrow> (d, Inl (Error ''hermesc''))
      | Some js \<Rightarrow>
          ((if t_useSourceMaps args
            then (d(t_filePath args \<mapsto> ''hbc''))(t_filePath args @ ''.hbc.map'' \<mapsto> ''h'')
            else d(t_filePath args \<mapsto> ''hbc'')),
           Inr \<lparr>sourceMap = t_filePath args @ ''.hbc.map''\<rparr>))"

definition sample_externals :: externals where
  "sample_externals =
     \<lparr>join = (\<lambda>d p. d @ ''/'' @ p),
      dirname = (\<lambda>p. rev (tl (dropWhile (\<lambda>c. c \<noteq> CHR ''/'') (rev p)))),
      basename = (\<lambda>p. rev (takeWhile (\<lambda>c. c \<noteq> CHR ''/'') (rev p))),
      getHermesCLIPath = (\<lambda>r. Inr (r @ ''/hermesc'')),
      transformBundleToHermesBytecode = sample_transform,
      composeSourceMaps = spec_composeSourceMaps (\<lambda>m1 m2. Some (m1 @ m2)),
      renameError = (\<lambda>src dst d. None)\<rparr>"

definition sample_config :: config where
  "sample_config =
     \<lparr>enabled = True,
      platform = ''ios'',
      bundleFilename = Some ''/o/main.js'',
      sourceMapFilename = None,
      assetsPath = Some ''/a'',
      reactNativePath = None,
      hermesCLIPath = Some ''/hermesc'',
      matchObject = (\<lambda>n. True)\<rparr>"

definition sample_closure :: closure where
  "sample_closure =
     makeClosure sample_externals sample_config ''/o/main.js'' ''/rn'' ''/hermesc''"

definition sample_compilation :: compilation where
  "sample_compilation =
     \<lparr>getAssets = [\<lparr>name = ''index.bundle''\<rparr>, \<lparr>name = ''c1.bundle''\<rparr>],
      getPath = (\<lambda>n. n)\<rparr>"

definition sample_world :: world where
  "sample_world =
     \<lparr>files = [''/o/main.js'' \<mapsto> ''js'', ''/o/main.js.map'' \<mapsto> ''m'',
               ''/a/c1.bundle'' \<mapsto> ''js''],
      trace = [],
      completions = [1, 0, 0, 1, 0]\<rparr>"


section \<open>Comparing runs\<close>

text \<open>
  Two runs with the same pipelines, the same rejection and the same disk: they differ
  in their events at most.
\<close>

definition sameOutcome :: "running \<Rightarrow> running \<Rightarrow> bool" where
  "sameOutcome s t =
     (fst s = fst t \<and> fst (snd s) = fst (snd t) \<and> files (snd (snd s)) = files (snd (snd t)))"

section \<open>Unfolding the definitions\<close>

lemmas sample_defs =
  sample_externals_def sample_config_def sample_closure_def sample_compilation_def
  sample_world_def sample_transform_def makeClosure_def truthy_def Let_def

lemmas path_defs =
  isMainBundle_def assetPath_def bundleOutputPath_def sourcemapOutputPath_def
  packagerMapPath_def

lemmas step_defs =
  processAsset_def fileExists_def logger_def fs_rename_def callTransform_def
  callCompose_def

section \<open>Resuming a pipeline\<close>

lemma resume_remaining: "remaining (fst (resume ex cl cmp p w)) \<le> remaining p - 1"
  by (cases p) (auto simp: Let_def split: prod.splits option.splits sum.splits)

lemma resume_disk_only:
  assumes "files w = files v"
  shows "fst (resume ex cl cmp p w) = fst (resume ex cl cmp p v)
         \<and> files (snd (resume ex cl cmp p w)) = files (snd (resume ex cl cmp p v))"
  using assms
  by (cases p)
     (auto simp: fileExists_def logger_def fs_rename_def callTransform_def callCompose_def Let_def
           split: prod.splits option.splits sum.splits)

section \<open>Runs\<close>

lemma promiseStep_length: "length (fst (promiseStep ex cl cmp i s)) = length (fst s)"
  by (cases s) (simp add: promiseStep_def Let_def split: prod.splits)

lemma promiseSteps_length: "length (fst (promiseSteps ex cl cmp js s)) = length (fst s)"
  by (induction js arbitrary: s) (simp_all add: promiseStep_length)

lemma promiseSteps_append:
  "promiseSteps ex cl cmp (js @ ks) s = promiseSteps ex cl cmp ks (promiseSteps ex cl cmp js s)"
  by (induction js arbitrary: s) simp_all

lemma promiseStep_remaining:
  assumes "j < length (fst s)"
  shows "remaining (fst (promiseStep ex cl cmp i s) ! j)
           \<le> remaining (fst s ! j) - (if i = j then 1 else 0)"
proof (cases s)
  case (fields ps rej w)
  show ?thesis
  proof (cases "i = j")
    case True
    with assms fields resume_remaining [of ex cl cmp "ps ! j" w] show ?thesis
      by (simp add: promiseStep_def Let_def case_prod_beta)
  next
    case False
    with assms fields show ?thesis
      by (simp add: promiseStep_def Let_def split: prod.splits)
  qed
qed

lemma promiseSteps_remaining:
  assumes "j < length (fst s)"
  shows "remaining (fst (promiseSteps ex cl cmp js s) ! j)
           \<le> remaining (fst s ! j) - count_list js j"
  using assms
proof (induction js arbitrary: s)
  case Nil
  then show ?case by simp
next
  case (Cons i js)
  from Cons.prems have len: "j < length (fst (promiseStep ex cl cmp i s))"
    by (simp add: promiseStep_length)
  from Cons.IH [OF len] promiseStep_remaining [OF Cons.prems, of ex cl cmp i]
  show ?case by auto
qed

lemma remaining_le_5: "remaining p \<le> 5"
  by (cases p) simp_all

lemma remaining_0: "remaining p = 0 \<Longrightarrow> \<exists>r. p = Settled r"
  by (cases p) simp_all

lemma count_list_fives: "j < n \<Longrightarrow> count_list (concat (map (\<lambda>i. [i, i, i, i, i]) [0..<n])) j = 5"
  by (induction n) (auto simp: less_Suc_eq)

lemma settleAll_settles:
  assumes "j < length (fst s)"
  shows "\<exists>r. fst (settleAll ex cl cmp s) ! j = Settled r"
proof -
  from promiseSteps_remaining [OF assms, of ex cl cmp "concat (map (\<lambda>i. [i, i, i, i, i]) [0..<length (fst s)])"]
       count_list_fives [OF assms] remaining_le_5 [of "fst s ! j"]
  have "remaining (fst (settleAll ex cl cmp s) ! j) = 0"
    by (simp add: settleAll_def)
  then show ?thesis by (rule remaining_0)
qed

lemma settleAll_length: "length (fst (settleAll ex cl cmp s)) = length (fst s)"
  by (simp add: settleAll_def promiseSteps_length)

lemma promiseStep_sameOutcome:
  assumes "sameOutcome s t"
  shows "sameOutcome (promiseStep ex cl cmp i s) (promiseStep ex cl cmp i t)"
proof (cases s, cases t)
  fix ps rej w qs rej' v
  assume s: "s = (ps, rej, w)" and t: "t = (qs, rej', v)"
  with assms have eq: "ps = qs" "rej = rej'" "files w = files v"
    by (simp_all add: sameOutcome_def)
  from resume_disk_only [OF eq(3), of ex cl cmp "qs ! i"] s t eq show ?thesis
    by (auto simp: sameOutcome_def promiseStep_def Let_def case_prod_beta split: option.splits)
qed

lemma promiseSteps_sameOutcome:
  assumes "sameOutcome s t"
  shows "sameOutcome (promiseSteps ex cl cmp js s) (promiseSteps ex cl cmp js t)"
  using assms
  by (induction js arbitrary: s t) (simp_all add: promiseStep_sameOutcome)

lemma settleAll_sameOutcome:
  assumes "sameOutcome s t"
  shows "sameOutcome (settleAll ex cl cmp s) (settleAll ex cl cmp t)"
proof -
  from assms have "fst s = fst t" by (simp add: sameOutcome_def)
  with promiseSteps_sameOutcome [OF assms] show ?thesis
    by (simp add: settleAll_def)
qed

lemma promiseStep_settled:
  assumes "j < length (fst s)" and "fst s ! j = Settled r"
  shows "fst (promiseStep ex cl cmp i s) ! j = Settled r"
  using assms
  by (cases s) (auto simp: promiseStep_def Let_def nth_list_update split: prod.splits)

lemma promiseSteps_settled:
  assumes "j < length (fst s)" and "fst s ! j = Settled r"
  shows "fst (promiseSteps ex cl cmp js s) ! j = Settled r"
  using assms
  by (induction js arbitrary: s) (simp_all add: promiseStep_settled promiseStep_length)


lemma settleAll_settled:
  assumes "j < length (fst s)" and "fst s ! j = Settled r"
  shows "fst (settleAll ex cl cmp s) ! j = Settled r"
  using assms by (simp add: settleAll_def promiseSteps_settled)

section \<open>A pipeline that nothing interrupts\<close>

text \<open>
  Five completions in a row of the operations of one pipeline do what the body of the
  callback does when it is run from top to bottom.
\<close>

lemma promiseStep_single:
  "promiseStep ex cl cmp 0 ([p], rej, w) =
     ([fst (resume ex cl cmp p w)],
      (case rej of Some e \<Rightarrow> Some e | None \<Rightarrow> rejection (fst (resume ex cl cmp p w))),
      snd (resume ex cl cmp p w))"
  by (auto simp: promiseStep_def case_prod_beta split: option.splits)

lemma pipeline_uninterrupted:
  "promiseSteps ex cl cmp [0, 0, 0, 0, 0]
     ([AwaitBundleExists a], None,
      logger LDebug (''Starting hermes compilation for asset: '' @ name a) w)
   = (case processAsset ex cl cmp a w of (w', r) \<Rightarrow> ([Settled r], r, w'))"
proof -
  let ?bop = "bundleOutputPath ex cl cmp a"
  let ?smp = "sourcemapOutputPath ex cl cmp a"
  let ?pmp = "packagerMapPath ex cl cmp a"
  let ?targs = "\<lambda>u. \<lparr>t_hermesCLIPath = cl_hermesCLIPath cl, t_useSourceMaps = u, t_filePath = ?bop\<rparr>"
  let ?cargs = "\<lambda>h. \<lparr>c_reactNativePath = cl_reactNativePath cl, c_packagerMapPath = ?pmp,
                      c_compilerMapPath = sourceMap h, c_outputFile = ?smp\<rparr>"
  note defs = promiseStep_single step_defs Let_def
  show ?thesis
  proof (cases "files w ?bop")
    case None
    then show ?thesis by (simp add: defs)
  next
    case (Some js)
    note present = this
    show ?thesis
    proof (cases "files w ?smp")
      case None
      note nomap = this
      obtain d2 r where tr: "transformBundleToHermesBytecode ex (?targs False) (files w) = (d2, r)"
        by (cases "transformBundleToHermesBytecode ex (?targs False) (files w)")
      show ?thesis
      proof (cases r)
        case (Inl e)
        with present nomap tr show ?thesis by (simp add: defs)
      next
        case (Inr h)
        with present nomap tr show ?thesis by (simp add: defs)
      qed
    next
      case (Some m)
      note found = this
      show ?thesis
      proof (cases "renameError ex ?smp ?pmp (files w)")
        case (Some e)
        with present found show ?thesis by (simp add: defs)
      next
        case None
        note renamed = this
        let ?d1 = "((files w)(?smp := None))(?pmp \<mapsto> m)"
        obtain d2 r where tr: "transformBundleToHermesBytecode ex (?targs True) ?d1 = (d2, r)"
          by (cases "transformBundleToHermesBytecode ex (?targs True) ?d1")
        show ?thesis
        proof (cases r)
          case (Inl e)
          with present found renamed tr show ?thesis by (simp add: defs)
        next
          case (Inr h)
          obtain d3 r' where co: "composeSourceMaps ex (?cargs h) d2 = (d3, r')"
            by (cases "composeSourceMaps ex (?cargs h) d2")
          with Inr present found renamed tr show ?thesis by (simp add: defs)
        qed
      qed
    qed
  qed
qed

lemma promiseStep_beyond: "i \<noteq> 0 \<Longrightarrow> promiseStep ex cl cmp i ([p], rej, w) = ([p], rej, w)"
  by (simp add: promiseStep_def)

lemma promiseSteps_single:
  "promiseSteps ex cl cmp js ([p], rej, w)
     = promiseSteps ex cl cmp (replicate (count_list js 0) 0) ([p], rej, w)"
proof (induction js arbitrary: p rej w)
  case Nil
  then show ?case by simp
next
  case (Cons i js)
  then show ?case
    by (cases "i = 0") (simp_all add: promiseStep_single promiseStep_beyond)
qed

lemma promiseSteps_settled_single:
  "promiseSteps ex cl cmp js ([Settled r], r, w) = ([Settled r], r, w)"
  by (induction js) (auto simp: promiseStep_def split: option.splits)

text \<open>
  With a single matching asset the hook is the body of the callback run from top to
  bottom, whatever the order of completions.
\<close>

lemma promiseAll_single: "promiseAll ex cl cmp [a] w = processAsset ex cl cmp a w"
proof -
  let ?s0 = "([AwaitBundleExists a], None,
              logger LDebug (''Starting hermes compilation for asset: '' @ name a) w)"
  let ?k = "count_list (completions w) 0"
  obtain w' r where pa: "processAsset ex cl cmp a w = (w', r)"
    by (cases "processAsset ex cl cmp a w")
  have fives: "count_list (completions w @ [0, 0, 0, 0, 0]) 0 = 5 + ?k"
    by simp
  have five: "replicate 5 (0::nat) = [0, 0, 0, 0, 0]"
    by (simp add: numeral_eq_Suc)
  have "settleAll ex cl cmp (promiseSteps ex cl cmp (completions w) ?s0)
          = promiseSteps ex cl cmp (completions w @ [0, 0, 0, 0, 0]) ?s0"
    by (simp add: settleAll_def promiseSteps_length promiseSteps_append)
  also have "\<dots> = promiseSteps ex cl cmp (replicate (5 + ?k) 0) ?s0"
    by (subst promiseSteps_single) (simp only: fives)
  also have "\<dots> = promiseSteps ex cl cmp (replicate ?k 0)
                     (promiseSteps ex cl cmp [0, 0, 0, 0, 0] ?s0)"
    by (simp only: replicate_add promiseSteps_append five)
  also have "\<dots> = ([Settled r], r, w')"
    by (simp only: pipeline_uninterrupted pa prod.case promiseSteps_settled_single)
  finally show ?thesis
    by (simp add: promiseAll_def pa)
qed


text \<open>
  Every moment of a run of the hook is a run reached from the started pipelines by a
  prefix of the order of completions.
\<close>

lemma promiseAll_split:
  assumes "completions w = js1 @ js2"
  shows "promiseAll ex cl cmp as w =
           (case settleAll ex cl cmp
                   (promiseSteps ex cl cmp js2
                      (promiseSteps ex cl cmp js1
                         (map AwaitBundleExists as, None,
                          foldl (\<lambda>v a. logger LDebug
                                   (''Starting hermes compilation for asset: '' @ name a) v)
                                w as))) of
              (ps, rej, w1) \<Rightarrow> (w1, rej))"
  using assms by (simp add: promiseAll_def promiseSteps_append)

section \<open>Path resolution: the claims\<close>

text \<open>
  Claim C1, as the specification states it, compares the name of the asset with a
  configured main-entry bundle name. The plugin has no such option: with a main entry
  configured as \<^verbatim>\<open>main.bundle\<close>, the asset of that name is the main bundle by the
  specification and a secondary bundle for the code, which looks for it in the assets
  directory.
\<close>

theorem main_bundle_configured_name_counterexample:
  "spec_isMainBundle ''main.bundle'' \<lparr>name = ''main.bundle''\<rparr>
   \<and> \<not> isMainBundle \<lparr>name = ''main.bundle''\<rparr>
   \<and> bundleOutputPath sample_externals sample_closure sample_compilation
         \<lparr>name = ''main.bundle''\<rparr> = ''/a/main.bundle''"
  by (simp add: spec_isMainBundle_def sample_defs path_defs)

text \<open>
  Claim C1, amended. Under every configuration an asset is treated as the main bundle
  if and only if its name is exactly \<^verbatim>\<open>index.bundle\<close>, the name being a literal of the
  code: such an asset gets the configured bundle output path and its source map is
  looked for in the source-map output directory; every other asset is treated as
  secondary, its bundle path being its own path joined to the assets output directory on
  \<^verbatim>\<open>ios\<close> and to the bundle output directory elsewhere.
\<close>

theorem main_bundle_is_index_bundle:
  "let cl = makeClosure ex cfg bf rnp cli
   in isMainBundle a = spec_isMainBundle ''index.bundle'' a
      \<and> (name a = ''index.bundle'' \<longrightarrow>
         isMainBundle a
         \<and> bundleOutputPath ex cl cmp a = bf
         \<and> sourcemapOutputPath ex cl cmp a
             = join ex (sourcemapOutputDir cl) (basename ex bf @ ''.map''))
      \<and> (name a \<noteq> ''index.bundle'' \<longrightarrow>
         \<not> isMainBundle a
         \<and> bundleOutputPath ex cl cmp a
             = join ex (if platform cfg = ''ios'' then assetsOutputDir cl else dirname ex bf)
                       (getPath cmp (name a))
         \<and> sourcemapOutputPath ex cl cmp a
             = (if platform cfg = ''ios'' then bundleOutputPath ex cl cmp a @ ''.map''
                else join ex (sourcemapOutputDir cl)
                             (basename ex (bundleOutputPath ex cl cmp a) @ ''.map'')))"
  by (simp add: path_defs spec_isMainBundle_def makeClosure_def Let_def)

theorem main_bundle_is_index_bundle_witness:
  "isMainBundle \<lparr>name = ''index.bundle''\<rparr>
   \<and> bundleOutputPath sample_externals sample_closure sample_compilation
        \<lparr>name = ''index.bundle''\<rparr> = ''/o/main.js''
   \<and> \<not> isMainBundle \<lparr>name = ''main.bundle''\<rparr>
   \<and> bundleOutputPath sample_externals sample_closure sample_compilation
        \<lparr>name = ''main.bundle''\<rparr> = ''/a/main.bundle''
   \<and> sourcemapOutputPath sample_externals sample_closure sample_compilation
        \<lparr>name = ''main.bundle''\<rparr> = ''/a/main.bundle.map''"
  using main_bundle_is_index_bundle [of sample_externals sample_config "''/o/main.js''"
          "''/rn''" "''/hermesc''" "\<lparr>name = ''index.bundle''\<rparr>" sample_compilation]
        main_bundle_is_index_bundle [of sample_externals sample_config "''/o/main.js''"
          "''/rn''" "''/hermesc''" "\<lparr>name = ''main.bundle''\<rparr>" sample_compilation]
  by (simp add: sample_defs path_defs spec_isMainBundle_def)

text \<open>
  Claim C2. The resolved bundle path of the main bundle is the configured bundle output
  path, whatever the platform; the one of a secondary bundle is the asset's path joined
  to the assets output directory on \<^verbatim>\<open>ios\<close> and to the bundle output directory on every
  other platform.
\<close>

theorem bundle_path_resolution:
  "bundleOutputPath ex cl cmp a =
     (if name a = ''index.bundle'' then cl_bundleFilename cl
      else if cl_platform cl = ''ios''
           then join ex (assetsOutputDir cl) (getPath cmp (name a))
           else join ex (bundleOutputDir cl) (getPath cmp (name a)))"
  by (simp add: bundleOutputPath_def isMainBundle_def assetPath_def)

theorem bundle_path_resolution_witness:
  "bundleOutputPath sample_externals sample_closure sample_compilation \<lparr>name = ''c1.bundle''\<rparr>
     = ''/a/c1.bundle''
   \<and> bundleOutputPath sample_externals (sample_closure\<lparr>cl_platform := ''android''\<rparr>)
         sample_compilation \<lparr>name = ''c1.bundle''\<rparr> = ''/o/c1.bundle''
   \<and> bundleOutputPath sample_externals (sample_closure\<lparr>cl_platform := ''android''\<rparr>)
         sample_compilation \<lparr>name = ''index.bundle''\<rparr> = ''/o/main.js''"
  using bundle_path_resolution [of sample_externals sample_closure sample_compilation
          "\<lparr>name = ''c1.bundle''\<rparr>"]
        bundle_path_resolution [of sample_externals "sample_closure\<lparr>cl_platform := ''android''\<rparr>"
          sample_compilation "\<lparr>name = ''c1.bundle''\<rparr>"]
        bundle_path_resolution [of sample_externals "sample_closure\<lparr>cl_platform := ''android''\<rparr>"
          sample_compilation "\<lparr>name = ''index.bundle''\<rparr>"]
  by (simp add: sample_defs)

text \<open>
  Claim C3. The resolved source-map path is the bundle path followed by \<^verbatim>\<open>.map\<close> when
  the asset is secondary and the platform is \<^verbatim>\<open>ios\<close>; in every other combination of role
  and platform it is the base name of the bundle path followed by \<^verbatim>\<open>.map\<close>, joined to the
  source-map output directory.
\<close>

theorem sourcemap_path_resolution:
  "sourcemapOutputPath ex cl cmp a =
     (if name a \<noteq> ''index.bundle'' \<and> cl_platform cl = ''ios''
      then bundleOutputPath ex cl cmp a @ ''.map''
      else join ex (sourcemapOutputDir cl)
                   (basename ex (bundleOutputPath ex cl cmp a) @ ''.map''))"
  by (simp add: sourcemapOutputPath_def isMainBundle_def)

theorem sourcemap_path_resolution_witness:
  "sourcemapOutputPath sample_externals sample_closure sample_compilation \<lparr>name = ''c1.bundle''\<rparr>
     = ''/a/c1.bundle.map''
   \<and> sourcemapOutputPath sample_externals (sample_closure\<lparr>cl_platform := ''android''\<rparr>)
         sample_compilation \<lparr>name = ''c1.bundle''\<rparr> = ''/o/c1.bundle.map''
   \<and> sourcemapOutputPath sample_externals sample_closure
         sample_compilation \<lparr>name = ''index.bundle''\<rparr> = ''/o/main.js.map''"
  using sourcemap_path_resolution [of sample_externals sample_closure sample_compilation
          "\<lparr>name = ''c1.bundle''\<rparr>"]
        sourcemap_path_resolution [of sample_externals "sample_closure\<lparr>cl_platform := ''android''\<rparr>"
          sample_compilation "\<lparr>name = ''c1.bundle''\<rparr>"]
        sourcemap_path_resolution [of sample_externals sample_closure
          sample_compilation "\<lparr>name = ''index.bundle''\<rparr>"]
  by (simp add: sample_defs path_defs)

text \<open>
  Claim C4. When the plugin is enabled with a bundle output path and taps its callback,
  the callback resolves paths with these directories: the bundle output directory is the
  directory of the bundle output path; without a source-map output path the source-map
  output directory is that same directory; without an assets output path the assets
  output directory is that same directory. An empty string counts as not configured.
\<close>

theorem output_dir_defaults:
  assumes "enabled cfg"
    and "bundleFilename cfg = Some bf" and "bf \<noteq> []"
    and "snd (snd (apply_plugin ex cfg c w)) = None"
  shows "\<exists>cl. afterEmit (fst (apply_plugin ex cfg c w))
               = afterEmit c @ [(pluginName, afterEmitCallback ex cfg cl)]
          \<and> bundleOutputDir cl = dirname ex bf
          \<and> (sourceMapFilename cfg = None \<or> sourceMapFilename cfg = Some []
               \<longrightarrow> sourcemapOutputDir cl = dirname ex bf)
          \<and> (assetsPath cfg = None \<or> assetsPath cfg = Some []
               \<longrightarrow> assetsOutputDir cl = dirname ex bf)"
proof -
  let ?rnp = "case reactNativePath cfg of
                None \<Rightarrow> ''./node_modules/react-native'' | Some p \<Rightarrow> p"
  from assms obtain cli where
    "apply_plugin ex cfg c w =
       (c\<lparr>afterEmit := afterEmit c
           @ [(pluginName, afterEmitCallback ex cfg (makeClosure ex cfg bf ?rnp cli))]\<rparr>, w, None)"
    by (auto simp: apply_plugin_def truthy_def Let_def split: sum.splits option.splits)
  then show ?thesis
    by (intro exI [of _ "makeClosure ex cfg bf ?rnp cli"])
       (auto simp: makeClosure_def truthy_def Let_def)
qed

theorem output_dir_defaults_witness:
  "enabled (sample_config\<lparr>assetsPath := None\<rparr>)
   \<and> sourceMapFilename (sample_config\<lparr>assetsPath := None\<rparr>) = None
   \<and> assetsPath (sample_config\<lparr>assetsPath := None\<rparr>) = None
   \<and> (\<exists>cl. afterEmit (fst (apply_plugin sample_externals (sample_config\<lparr>assetsPath := None\<rparr>)
                              \<lparr>afterEmit = []\<rparr> sample_world))
               = [(pluginName,
                   afterEmitCallback sample_externals (sample_config\<lparr>assetsPath := None\<rparr>) cl)]
            \<and> bundleOutputDir cl = ''/o''
            \<and> sourcemapOutputDir cl = ''/o''
            \<and> assetsOutputDir cl = ''/o'')"
proof -
  let ?cfg = "sample_config\<lparr>assetsPath := None\<rparr>"
  have h1: "enabled ?cfg" by (simp add: sample_config_def)
  have h2: "bundleFilename ?cfg = Some ''/o/main.js''" by (simp add: sample_config_def)
  have h3: "''/o/main.js'' \<noteq> []" by simp
  have h4: "snd (snd (apply_plugin sample_externals ?cfg \<lparr>afterEmit = []\<rparr> sample_world)) = None"
    by (simp add: apply_plugin_def sample_config_def truthy_def)
  have h5: "sourceMapFilename ?cfg = None" "assetsPath ?cfg = None"
    by (simp_all add: sample_config_def)
  have d: "dirname sample_externals ''/o/main.js'' = ''/o''"
    by (simp add: sample_externals_def)
  from output_dir_defaults [OF h1 h2 h3 h4] h1 h5 d show ?thesis
    by auto
qed

section \<open>The steps of one pipeline: the claims\<close>

text \<open>
  Claim C5. For an asset whose bundle file exists, the whole outcome of the pipeline
  when nothing interrupts it: disk, events and exception. The pipeline checks the bundle
  path and then the resolved source-map path. If a source map is there it is renamed to
  the packager-map path, and when the rename is refused the pipeline ends there with
  that exception; if none is there the pipeline logs that no source maps were found and
  goes on. The transformer is then called on the bundle path, on the disk the rename
  has left, and asked for a compiler map exactly when the source map was found; when it
  throws, the pipeline ends with its exception. When it returns, the composer is called
  exactly when the source map was found, with the packager map, the compiler map the
  transformer named, and the resolved source-map path as its output file, and the
  pipeline ends with the disk and the result of the composer; without a source map the
  pipeline ends with the disk of the transformer and no exception.

  The same holds at each \<^verbatim>\<open>await\<close> on the world \<open>v\<close> that the pipeline finds there,
  whatever other pipelines have done to it in the meantime: the check of the source map
  leads to the rename or to the log, the rename to the transformer asked for a map or,
  when the map is gone or the move refused, to the end of the pipeline, the transformer
  to the composer exactly when it was asked for a map, and the composer to the end.
\<close>

theorem source_map_steps:
  assumes "files w (bundleOutputPath ex cl cmp a) \<noteq> None"
  shows "let bop = bundleOutputPath ex cl cmp a;
             smp = sourcemapOutputPath ex cl cmp a;
             pmp = packagerMapPath ex cl cmp a;
             targs = (\<lambda>u. \<lparr>t_hermesCLIPath = cl_hermesCLIPath cl, t_useSourceMaps = u,
                            t_filePath = bop\<rparr>);
             cargs = (\<lambda>h. \<lparr>c_reactNativePath = cl_reactNativePath cl,
                            c_packagerMapPath = pmp,
                            c_compilerMapPath = sourceMap h,
                            c_outputFile = smp\<rparr>);
             transformed = Log LInfo (''Asset transformed: '' @ assetPath cmp a);
             found = (files w smp \<noteq> None);
             t0 = trace w @
                  [Log LDebug (''Starting hermes compilation for asset: '' @ name a),
                   FsAccess bop, FsAccess smp]
                  @ (if found then [FsRename smp pmp] else [Log LInfo msgNoSourceMaps])
         in processAsset ex cl cmp a w =
              (case (if found then renameError ex smp pmp (files w) else None) of
                 Some e \<Rightarrow> (w\<lparr>trace := t0\<rparr>, Some e)
               | None \<Rightarrow>
                   (let d1 = (case files w smp of
                                None \<Rightarrow> files w
                              | Some m \<Rightarrow> ((files w)(smp := None))(pmp \<mapsto> m));
                        t1 = t0 @ [Transform (targs found)]
                    in case transformBundleToHermesBytecode ex (targs found) d1 of
                         (d2, Inl e) \<Rightarrow> (w\<lparr>files := d2, trace := t1\<rparr>, Some e)
                       | (d2, Inr h) \<Rightarrow>
                           if found
                           then (case composeSourceMaps ex (cargs h) d2 of
                                   (d3, r) \<Rightarrow>
                                     (w\<lparr>files := d3,
                                        trace := t1 @ [transformed, Compose (cargs h)]\<rparr>, r))
                           else (w\<lparr>files := d2, trace := t1 @ [transformed]\<rparr>, None)))
            \<and> resume ex cl cmp (AwaitSourcemapExists a) v =
                (if files v smp \<noteq> None
                 then (AwaitRename a, v\<lparr>trace := trace v @ [FsAccess smp]\<rparr>)
                 else (AwaitTransform a False,
                       v\<lparr>trace := trace v @ [FsAccess smp, Log LInfo msgNoSourceMaps]\<rparr>))
            \<and> resume ex cl cmp (AwaitRename a) v =
                (case files v smp of
                   None \<Rightarrow>
                     (Settled (Some (Error ''ENOENT'')),
                      v\<lparr>trace := trace v @ [FsRename smp pmp]\<rparr>)
                 | Some m \<Rightarrow>
                     (case renameError ex smp pmp (files v) of
                        Some e \<Rightarrow> (Settled (Some e), v\<lparr>trace := trace v @ [FsRename smp pmp]\<rparr>)
                      | None \<Rightarrow>
                          (AwaitTransform a True,
                           v\<lparr>files := ((files v)(smp := None))(pmp \<mapsto> m),
                             trace := trace v @ [FsRename smp pmp]\<rparr>)))
            \<and> resume ex cl cmp (AwaitTransform a u) v =
                (case transformBundleToHermesBytecode ex (targs u) (files v) of
                   (d2, Inl e) \<Rightarrow>
                     (Settled (Some e), v\<lparr>files := d2, trace := trace v @ [Transform (targs u)]\<rparr>)
                 | (d2, Inr h) \<Rightarrow>
                     (if u then AwaitCompose a h else Settled None,
                      v\<lparr>files := d2, trace := trace v @ [Transform (targs u), transformed]\<rparr>))
            \<and> resume ex cl cmp (AwaitCompose a hermes) v =
                (case composeSourceMaps ex (cargs hermes) (files v) of
                   (d3, r) \<Rightarrow>
                     (Settled r, v\<lparr>files := d3, trace := trace v @ [Compose (cargs hermes)]\<rparr>))"
proof -
  have whole: "processAsset ex cl cmp a w =
     (let bop = bundleOutputPath ex cl cmp a;
          smp = sourcemapOutputPath ex cl cmp a;
          pmp = packagerMapPath ex cl cmp a;
          found = (files w smp \<noteq> None);
          t0 = trace w @
               [Log LDebug (''Starting hermes compilation for asset: '' @ name a),
                FsAccess bop, FsAccess smp]
               @ (if found then [FsRename smp pmp] else [Log LInfo msgNoSourceMaps])
      in case (if found then renameError ex smp pmp (files w) else None) of
           Some e \<Rightarrow> (w\<lparr>trace := t0\<rparr>, Some e)
         | None \<Rightarrow>
            (let d1 = (case files w smp of
                         None \<Rightarrow> files w
                       | Some m \<Rightarrow> ((files w)(smp := None))(pmp \<mapsto> m));
                 targs = \<lparr>t_hermesCLIPath = cl_hermesCLIPath cl, t_useSourceMaps = found,
                          t_filePath = bop\<rparr>;
                 t1 = t0 @ [Transform targs]
             in case transformBundleToHermesBytecode ex targs d1 of
                  (d2, Inl e) \<Rightarrow> (w\<lparr>files := d2, trace := t1\<rparr>, Some e)
                | (d2, Inr h) \<Rightarrow>
                    let t2 = t1 @ [Log LInfo (''Asset transformed: '' @ assetPath cmp a)];
                        cargs = \<lparr>c_reactNativePath = cl_reactNativePath cl,
                                 c_packagerMapPath = pmp,
                                 c_compilerMapPath = sourceMap h,
                                 c_outputFile = smp\<rparr>
                    in if found
                       then (case composeSourceMaps ex cargs d2 of
                               (d3, r) \<Rightarrow> (w\<lparr>files := d3, trace := t2 @ [Compose cargs]\<rparr>, r))
                       else (w\<lparr>files := d2, trace := t2\<rparr>, None)))"
    using assms
    by (cases w) (auto simp: step_defs Let_def split: prod.splits sum.splits option.splits)
  have s1: "resume ex cl cmp (AwaitSourcemapExists a) v =
                (if files v (sourcemapOutputPath ex cl cmp a) \<noteq> None
                 then (AwaitRename a,
                       v\<lparr>trace := trace v @ [FsAccess (sourcemapOutputPath ex cl cmp a)]\<rparr>)
                 else (AwaitTransform a False,
                       v\<lparr>trace := trace v @ [FsAccess (sourcemapOutputPath ex cl cmp a),
                                             Log LInfo msgNoSourceMaps]\<rparr>))"
    by (simp add: fileExists_def logger_def)
  have s2: "resume ex cl cmp (AwaitRename a) v =
                (case files v (sourcemapOutputPath ex cl cmp a) of
                   None \<Rightarrow>
                     (Settled (Some (Error ''ENOENT'')),
                      v\<lparr>trace := trace v @ [FsRename (sourcemapOutputPath ex cl cmp a)
                                                    (packagerMapPath ex cl cmp a)]\<rparr>)
                 | Some m \<Rightarrow>
                     (case renameError ex (sourcemapOutputPath ex cl cmp a)
                             (packagerMapPath ex cl cmp a) (files v) of
                        Some e \<Rightarrow>
                          (Settled (Some e),
                           v\<lparr>trace := trace v @ [FsRename (sourcemapOutputPath ex cl cmp a)
                                                         (packagerMapPath ex cl cmp a)]\<rparr>)
                      | None \<Rightarrow>
                          (AwaitTransform a True,
                           v\<lparr>files := ((files v)(sourcemapOutputPath ex cl cmp a := None))
                                         (packagerMapPath ex cl cmp a \<mapsto> m),
                             trace := trace v @ [FsRename (sourcemapOutputPath ex cl cmp a)
                                                        (packagerMapPath ex cl cmp a)]\<rparr>)))"
    by (cases v) (simp add: fs_rename_def Let_def split: option.splits)
  have s3: "resume ex cl cmp (AwaitTransform a u) v =
                (case transformBundleToHermesBytecode ex
                        \<lparr>t_hermesCLIPath = cl_hermesCLIPath cl, t_useSourceMaps = u,
                         t_filePath = bundleOutputPath ex cl cmp a\<rparr> (files v) of
                   (d2, Inl e) \<Rightarrow>
                     (Settled (Some e),
                      v\<lparr>files := d2,
                        trace := trace v @
                          [Transform \<lparr>t_hermesCLIPath = cl_hermesCLIPath cl, t_useSourceMaps = u,
                                      t_filePath = bundleOutputPath ex cl cmp a\<rparr>]\<rparr>)
                 | (d2, Inr h) \<Rightarrow>
                     (if u then AwaitCompose a h else Settled None,
                      v\<lparr>files := d2,
                        trace := trace v @
                          [Transform \<lparr>t_hermesCLIPath = cl_hermesCLIPath cl, t_useSourceMaps = u,
                                      t_filePath = bundleOutputPath ex cl cmp a\<rparr>,
                           Log LInfo (''Asset transformed: '' @ assetPath cmp a)]\<rparr>))"
    by (cases v) (simp add: callTransform_def logger_def Let_def split: prod.splits sum.splits)
  have s4: "resume ex cl cmp (AwaitCompose a hermes) v =
                (case composeSourceMaps ex
                        \<lparr>c_reactNativePath = cl_reactNativePath cl,
                         c_packagerMapPath = packagerMapPath ex cl cmp a,
                         c_compilerMapPath = sourceMap hermes,
                         c_outputFile = sourcemapOutputPath ex cl cmp a\<rparr> (files v) of
                   (d3, r) \<Rightarrow>
                     (Settled r,
                      v\<lparr>files := d3,
                        trace := trace v @
                          [Compose \<lparr>c_reactNativePath = cl_reactNativePath cl,
                                    c_packagerMapPath = packagerMapPath ex cl cmp a,
                                    c_compilerMapPath = sourceMap hermes,
                                    c_outputFile = sourcemapOutputPath ex cl cmp a\<rparr>]\<rparr>))"
    by (cases v) (simp add: callCompose_def Let_def split: prod.splits)
  from whole s1 s2 s3 s4 show ?thesis
    by (simp add: Let_def split: prod.splits sum.splits option.splits)
qed

theorem source_map_steps_witness:
  "files sample_world
     (bundleOutputPath sample_externals sample_closure sample_compilation \<lparr>name = ''index.bundle''\<rparr>)
     \<noteq> None
   \<and> snd (processAsset sample_externals sample_closure sample_compilation
             \<lparr>name = ''index.bundle''\<rparr> sample_world) = None
   \<and> trace (fst (processAsset sample_externals sample_closure sample_compilation
                   \<lparr>name = ''index.bundle''\<rparr> sample_world)) =
       [Log LDebug ''Starting hermes compilation for asset: index.bundle'',
        FsAccess ''/o/main.js'', FsAccess ''/o/main.js.map'',
        FsRename ''/o/main.js.map'' ''/o/main.js.packager.map'',
        Transform \<lparr>t_hermesCLIPath = ''/hermesc'', t_useSourceMaps = True,
                   t_filePath = ''/o/main.js''\<rparr>,
        Log LInfo ''Asset transformed: index.bundle'',
        Compose \<lparr>c_reactNativePath = ''/rn'',
                 c_packagerMapPath = ''/o/main.js.packager.map'',
                 c_compilerMapPath = ''/o/main.js.hbc.map'',
                 c_outputFile = ''/o/main.js.map''\<rparr>]
   \<and> map (files (fst (processAsset sample_externals sample_closure sample_compilation
                         \<lparr>name = ''index.bundle''\<rparr> sample_world)))
         [''/o/main.js'', ''/o/main.js.map'', ''/o/main.js.packager.map'', ''/a/c1.bundle'']
       = [Some ''hbc'', Some ''mh'', None, Some ''js'']"
proof -
  have h: "files sample_world
     (bundleOutputPath sample_externals sample_closure sample_compilation \<lparr>name = ''index.bundle''\<rparr>)
     \<noteq> None"
    by (simp add: sample_defs path_defs)
  from source_map_steps [OF h] h show ?thesis
    by (simp add: sample_defs path_defs spec_composeSourceMaps_def)
qed

text \<open>
  Claim C8. At any moment of a run: when the operation a pipeline waits for is the check
  of its bundle file and that file is not on disk as the check completes, the pipeline
  settles without an exception. It logs the missing bundle, the disk stays as it is, the
  promise of the run is not rejected by it and no other pipeline is touched. Whatever
  the order in which the operations of the run complete afterwards, every pipeline of
  the run settles, the skipped one without error, and the pipelines, the rejection and
  the disk at the end are those of the run in which the skipped pipeline had ended
  silently.
\<close>

theorem missing_bundle_skips_asset_only:
  assumes "i < length ps" and "ps ! i = AwaitBundleExists a"
    and "files w (bundleOutputPath ex cl cmp a) = None"
  shows "promiseStep ex cl cmp i (ps, rej, w) =
           (ps[i := Settled None], rej,
            w\<lparr>trace := trace w @
                [FsAccess (bundleOutputPath ex cl cmp a),
                 Log LError (''Bundle does not exist: '' @ bundleOutputPath ex cl cmp a)]\<rparr>)
         \<and> (let (ps', rej', w') =
                   settleAll ex cl cmp
                     (promiseSteps ex cl cmp js (promiseStep ex cl cmp i (ps, rej, w)));
                 (qs, rej'', v) =
                   settleAll ex cl cmp
                     (promiseSteps ex cl cmp js (ps[i := Settled None], rej, w))
             in length ps' = length ps
                \<and> (\<forall>j < length ps'. \<exists>r. ps' ! j = Settled r)
                \<and> ps' ! i = Settled None
                \<and> ps' = qs \<and> rej' = rej'' \<and> files w' = files v)"
proof -
  let ?skip = "(ps[i := Settled None], rej,
                w\<lparr>trace := trace w @
                    [FsAccess (bundleOutputPath ex cl cmp a),
                     Log LError (''Bundle does not exist: '' @ bundleOutputPath ex cl cmp a)]\<rparr>)"
  let ?silent = "(ps[i := Settled None], rej, w)"
  let ?end = "\<lambda>s. settleAll ex cl cmp (promiseSteps ex cl cmp js s)"
  have step: "promiseStep ex cl cmp i (ps, rej, w) = ?skip"
    using assms
    by (auto simp: promiseStep_def fileExists_def logger_def Let_def split: option.splits)
  have len: "length (fst (?end ?skip)) = length ps"
    by (simp add: settleAll_length promiseSteps_length)
  have all: "\<forall>j < length ps. \<exists>r. fst (?end ?skip) ! j = Settled r"
    by (simp add: settleAll_settles promiseSteps_length)
  have "fst (promiseSteps ex cl cmp js ?skip) ! i = Settled None"
    using assms(1) by (simp add: promiseSteps_settled)
  then have own: "fst (?end ?skip) ! i = Settled None"
    using assms(1) by (simp add: settleAll_settled promiseSteps_length)
  have "sameOutcome ?skip ?silent"
    by (simp add: sameOutcome_def)
  then have "sameOutcome (?end ?skip) (?end ?silent)"
    by (intro settleAll_sameOutcome promiseSteps_sameOutcome)
  with len all own show ?thesis
    by (simp only: step) (auto simp: sameOutcome_def split: prod.splits)
qed

theorem missing_bundle_skips_asset_only_witness:
  "files sample_world
     (bundleOutputPath sample_externals sample_closure sample_compilation \<lparr>name = ''c2.bundle''\<rparr>)
     = None
   \<and> (let (ps', rej', w') =
             settleAll sample_externals sample_closure sample_compilation
               (promiseSteps sample_externals sample_closure sample_compilation [2, 0, 0, 2, 0]
                  (promiseStep sample_externals sample_closure sample_compilation 1
                     ([AwaitBundleExists \<lparr>name = ''index.bundle''\<rparr>,
                       AwaitBundleExists \<lparr>name = ''c2.bundle''\<rparr>,
                       AwaitBundleExists \<lparr>name = ''c1.bundle''\<rparr>], None, sample_world)))
       in ps' = [Settled None, Settled None, Settled None]
          \<and> rej' = None
          \<and> files w' ''/a/c1.bundle'' = Some ''hbc''
          \<and> files w' ''/o/main.js'' = Some ''hbc''
          \<and> files w' ''/o/main.js.map'' = Some ''mh''
          \<and> files w' ''/a/c2.bundle'' = None)
   \<and> (let (w', r) =
             afterEmitCallback sample_externals
               (sample_config\<lparr>matchObject := (\<lambda>n. n \<noteq> ''x.txt'')\<rparr>) sample_closure
               \<lparr>getAssets = [\<lparr>name = ''index.bundle''\<rparr>, \<lparr>name = ''x.txt''\<rparr>,
                             \<lparr>name = ''c2.bundle''\<rparr>, \<lparr>name = ''c1.bundle''\<rparr>],
                getPath = (\<lambda>n. n)\<rparr>
               (sample_world\<lparr>completions := [1, 2, 0, 0, 2, 0]\<rparr>)
       in r = None
          \<and> files w' ''/a/c1.bundle'' = Some ''hbc''
          \<and> files w' ''/o/main.js'' = Some ''hbc''
          \<and> files w' ''/a/c2.bundle'' = None
          \<and> Log LError ''Bundle does not exist: /a/c2.bundle'' \<in> set (trace w'))"
proof -
  have h: "files sample_world
     (bundleOutputPath sample_externals sample_closure sample_compilation \<lparr>name = ''c2.bundle''\<rparr>)
     = None"
    by (simp add: sample_defs path_defs)
  have i: "1 < length [AwaitBundleExists \<lparr>name = ''index.bundle''\<rparr>,
                       AwaitBundleExists \<lparr>name = ''c2.bundle''\<rparr>,
                       AwaitBundleExists \<lparr>name = ''c1.bundle''\<rparr>]"
    by simp
  have p: "[AwaitBundleExists \<lparr>name = ''index.bundle''\<rparr>,
            AwaitBundleExists \<lparr>name = ''c2.bundle''\<rparr>,
            AwaitBundleExists \<lparr>name = ''c1.bundle''\<rparr>] ! 1
           = AwaitBundleExists \<lparr>name = ''c2.bundle''\<rparr>"
    by simp
  from missing_bundle_skips_asset_only [OF i p h, of None "[2, 0, 0, 2, 0]"] h
  show ?thesis
    by (simp add: afterEmitCallback_def shouldUseHermesByteCode_def promiseAll_def
          settleAll_def promiseStep_def upt_rec sample_defs path_defs
          fileExists_def logger_def fs_rename_def callTransform_def callCompose_def
          spec_composeSourceMaps_def)
qed

text \<open>
  Claim C9. With the composer of the specification: when an asset is processed with
  source maps and its pipeline ends without error, no file is left at the packager-map
  path; the original map was at that path on the disk the transformer was given, and a
  file was still there on the disk the transformer handed on to the composer.
\<close>

theorem packager_map_transient:
  assumes "composeSourceMaps ex = spec_composeSourceMaps cm"
    and "files w (bundleOutputPath ex cl cmp a) \<noteq> None"
    and "files w (sourcemapOutputPath ex cl cmp a) = Some m"
    and "processAsset ex cl cmp a w = (w', None)"
  shows "files w' (packagerMapPath ex cl cmp a) = None
         \<and> (((files w)(sourcemapOutputPath ex cl cmp a := None))
                (packagerMapPath ex cl cmp a \<mapsto> m)) (packagerMapPath ex cl cmp a) = Some m
         \<and> (\<exists>d2 h. transformBundleToHermesBytecode ex
                      \<lparr>t_hermesCLIPath = cl_hermesCLIPath cl, t_useSourceMaps = True,
                       t_filePath = bundleOutputPath ex cl cmp a\<rparr>
                      (((files w)(sourcemapOutputPath ex cl cmp a := None))
                                 (packagerMapPath ex cl cmp a \<mapsto> m)) = (d2, Inr h)
                    \<and> d2 (packagerMapPath ex cl cmp a) \<noteq> None)"
  using assms(2,3,4)
  by (cases w)
     (auto simp: step_defs assms(1) spec_composeSourceMaps_def Let_def
      split: prod.splits sum.splits option.splits if_splits)

theorem packager_map_transient_witness:
  "files sample_world
     (sourcemapOutputPath sample_externals sample_closure sample_compilation
        \<lparr>name = ''index.bundle''\<rparr>) = Some ''m''
   \<and> snd (processAsset sample_externals sample_closure sample_compilation
             \<lparr>name = ''index.bundle''\<rparr> sample_world) = None
   \<and> files (fst (processAsset sample_externals sample_closure sample_compilation
                   \<lparr>name = ''index.bundle''\<rparr> sample_world))
        (packagerMapPath sample_externals sample_closure sample_compilation
           \<lparr>name = ''index.bundle''\<rparr>) = None"
proof -
  let ?a = "\<lparr>name = ''index.bundle''\<rparr>"
  let ?P = "processAsset sample_externals sample_closure sample_compilation ?a sample_world"
  have h1: "composeSourceMaps sample_externals = spec_composeSourceMaps (\<lambda>m1 m2. Some (m1 @ m2))"
    by (simp add: sample_externals_def)
  have h2: "files sample_world
      (bundleOutputPath sample_externals sample_closure sample_compilation ?a) \<noteq> None"
    by (simp add: sample_defs path_defs)
  have h3: "files sample_world
      (sourcemapOutputPath sample_externals sample_closure sample_compilation ?a) = Some ''m''"
    by (simp add: sample_defs path_defs)
  have h4: "snd ?P = None"
    by (simp add: sample_defs path_defs step_defs spec_composeSourceMaps_def)
  then have h5: "?P = (fst ?P, None)"
    by (simp add: prod_eq_iff)
  from packager_map_transient [OF h1 h2 h3 h5] h3 h4 show ?thesis by blast
qed

section \<open>Enabling and configuration: the claims\<close>

text \<open>
  Claim C6. When the plugin is enabled and no bundle output path is configured
  (\<^verbatim>\<open>undefined\<close> or the empty string), \<^verbatim>\<open>apply\<close> throws its configuration error after
  logging one error line and one hint. Nothing is tapped into the compiler, so no
  pipeline ever runs: the disk is untouched, the only events are the two log lines, and
  on a compiler with no other plugin a later \<^verbatim>\<open>afterEmit\<close> does nothing for any
  compilation.
\<close>

theorem missing_bundle_output_fails_fast:
  assumes "enabled cfg"
    and "bundleFilename cfg = None \<or> bundleFilename cfg = Some []"
  shows "apply_plugin ex cfg c w =
           (c,
            w\<lparr>trace := trace w @ [Log LError msgUnsupported, Log LInfo msgForgot]\<rparr>,
            Some (Error ''Hermes compilation is only supported for bundle builds with --bundle-output''))
         \<and> callAfterEmit (afterEmit (fst (apply_plugin ex cfg \<lparr>afterEmit = []\<rparr> w))) cmp v
           = (v, None)"
  using assms by (auto simp: apply_plugin_def truthy_def logger_def Let_def)

theorem missing_bundle_output_fails_fast_witness:
  "enabled (sample_config\<lparr>bundleFilename := None\<rparr>)
   \<and> bundleFilename (sample_config\<lparr>bundleFilename := None\<rparr>) = None
   \<and> apply_plugin sample_externals (sample_config\<lparr>bundleFilename := None\<rparr>)
        \<lparr>afterEmit = []\<rparr> sample_world =
       (\<lparr>afterEmit = []\<rparr>,
        sample_world\<lparr>trace := [Log LError msgUnsupported, Log LInfo msgForgot]\<rparr>,
        Some (Error ''Hermes compilation is only supported for bundle builds with --bundle-output''))"
  using missing_bundle_output_fails_fast [of "sample_config\<lparr>bundleFilename := None\<rparr>"
          sample_externals "\<lparr>afterEmit = []\<rparr>" sample_world]
  by (simp add: sample_config_def sample_world_def)

text \<open>
  Claim C7. When the plugin is disabled, \<^verbatim>\<open>apply\<close> logs one informational line and
  returns: no error, nothing tapped into the compiler, the disk untouched, no other
  event; on a compiler with no other plugin a later \<^verbatim>\<open>afterEmit\<close> does nothing for any
  compilation.
\<close>

theorem disabled_is_noop:
  assumes "\<not> enabled cfg"
  shows "apply_plugin ex cfg c w =
           (c, w\<lparr>trace := trace w @ [Log LInfo ''Skipping hermes compilation'']\<rparr>, None)
         \<and> callAfterEmit (afterEmit (fst (apply_plugin ex cfg \<lparr>afterEmit = []\<rparr> w))) cmp v
           = (v, None)"
  using assms by (simp add: apply_plugin_def logger_def)

theorem disabled_is_noop_witness:
  "\<not> enabled (sample_config\<lparr>enabled := False\<rparr>)
   \<and> apply_plugin sample_externals (sample_config\<lparr>enabled := False\<rparr>)
        \<lparr>afterEmit = []\<rparr> sample_world =
       (\<lparr>afterEmit = []\<rparr>,
        sample_world\<lparr>trace := [Log LInfo ''Skipping hermes compilation'']\<rparr>, None)"
  using disabled_is_noop [of "sample_config\<lparr>enabled := False\<rparr>"
          sample_externals "\<lparr>afterEmit = []\<rparr>" sample_world]
  by (simp add: sample_config_def sample_world_def)

text \<open>
  Claim C10. The test of the enabled flag comes before the validation of the
  configuration: a disabled plugin returns without error whatever the configuration,
  also when the bundle output path is missing, where the same configuration with the
  flag set makes \<^verbatim>\<open>apply\<close> throw.
\<close>

theorem disabled_check_precedes_validation:
  assumes "\<not> enabled cfg"
  shows "snd (snd (apply_plugin ex cfg c w)) = None
         \<and> (bundleFilename cfg = None \<longrightarrow>
              snd (snd (apply_plugin ex (cfg\<lparr>enabled := True\<rparr>) c w)) \<noteq> None)"
  using assms by (simp add: apply_plugin_def truthy_def Let_def)

theorem disabled_check_precedes_validation_witness:
  "\<not> enabled (sample_config\<lparr>enabled := False, bundleFilename := None\<rparr>)
   \<and> bundleFilename (sample_config\<lparr>enabled := False, bundleFilename := None\<rparr>) = None
   \<and> snd (snd (apply_plugin sample_externals
        (sample_config\<lparr>enabled := False, bundleFilename := None\<rparr>)
        \<lparr>afterEmit = []\<rparr> sample_world)) = None
   \<and> snd (snd (apply_plugin sample_externals
        (sample_config\<lparr>enabled := True, bundleFilename := None\<rparr>)
        \<lparr>afterEmit = []\<rparr> sample_world)) \<noteq> None"
  using disabled_check_precedes_validation
          [of "sample_config\<lparr>enabled := False, bundleFilename := None\<rparr>"
              sample_externals "\<lparr>afterEmit = []\<rparr>" sample_world]
  by (simp add: sample_config_def)

end
